theory Spec2Isabelle
  imports Complex_Main
begin

section \<open>Python values, responses and exceptions\<close>

text \<open>
  The values the client handles are what \<open>json.loads\<close> produces: \<open>None\<close>, booleans,
  numbers, strings, lists and dicts. Numbers (Python \<open>int\<close> and \<open>float\<close>) are
  modelled as reals, so rounding and the non-finite floats are outside the model.
  A dict is the list of its items; its keys are distinct.
\<close>

datatype json =
    JNull
  | JBool bool
  | JNum real
  | JStr string
  | JArr "json list"
  | JObj "(string \<times> json) list"

text \<open>Python truthiness, as used by \<open>raw or {}\<close>.\<close>

fun truthy :: "json \<Rightarrow> bool" where
  "truthy JNull = False"
| "truthy (JBool b) = b"
| "truthy (JNum x) = (x \<noteq> 0)"
| "truthy (JStr s) = (s \<noteq> [])"
| "truthy (JArr xs) = (xs \<noteq> [])"
| "truthy (JObj kvs) = (kvs \<noteq> [])"

definition py_or :: "json \<Rightarrow> json \<Rightarrow> json" where
  "py_or a b = (if truthy a then a else b)"

text \<open>
  An HTTP response as the client reads it: \<open>resp.status_code\<close>,
  \<open>resp.headers.get("Retry-After")\<close> (\<open>None\<close> when the header is absent) and
  \<open>resp.content\<close> (also read as \<open>resp.text\<close>).
\<close>

record response =
  status_code :: int
  retry_after_header :: "string option"
  content :: string

text \<open>
  The instance attributes set by \<open>ApiError.__init__\<close> and inherited by its subclasses.
\<close>

record api_error =
  err_status_code :: int
  err_message :: json
  err_raw :: json

text \<open>
  Every exception that can leave the client: the three classes of \<open>exceptions.py\<close>,
  the two httpx exceptions (\<open>httpx.TransportError\<close>, raised when no response arrives,
  and \<open>httpx.HTTPStatusError\<close>, raised by \<open>raise_for_status\<close>), and the built-in
  exceptions raised by \<open>float\<close>, \<open>time.sleep\<close>, \<open>resp.json()\<close>, attribute access and
  subscripting.
\<close>

datatype exn =
    ApiError api_error
  | AuthenticationError api_error
  | RateLimitError "real option" api_error
  | TransportError string
  | HTTPStatusError int
  | ValueError
  | OverflowError
  | JSONDecodeError
  | AttributeError
  | KeyError
  | TypeError

definition ApiError_init :: "int \<Rightarrow> json \<Rightarrow> json \<Rightarrow> api_error" where
  "ApiError_init sc msg r =
     \<lparr>err_status_code = sc, err_message = msg, err_raw = py_or r (JObj [])\<rparr>"

definition new_ApiError :: "int \<Rightarrow> json \<Rightarrow> json \<Rightarrow> exn" where
  "new_ApiError sc msg r = ApiError (ApiError_init sc msg r)"

definition new_AuthenticationError :: "json \<Rightarrow> json \<Rightarrow> exn" where
  "new_AuthenticationError msg r = AuthenticationError (ApiError_init 401 msg r)"

definition new_RateLimitError :: "real option \<Rightarrow> json \<Rightarrow> exn" where
  "new_RateLimitError ra r =
     RateLimitError ra (ApiError_init 429 (JStr ''Rate limit exceeded'') r)"

text \<open>The handler \<open>except httpx.TransportError\<close> catches exactly these.\<close>

fun is_transport :: "exn \<Rightarrow> bool" where
  "is_transport (TransportError _) = True"
| "is_transport _ = False"

fun is_AuthenticationError :: "exn \<Rightarrow> bool" where
  "is_AuthenticationError (AuthenticationError _) = True"
| "is_AuthenticationError _ = False"

section \<open>The world outside the client\<close>

text \<open>
  What the network answers, what the clock shows and what the two library parsers
  return are inputs of the model. \<open>api_net k\<close> is the outcome of the \<open>k\<close>-th request to
  a resource endpoint, \<open>token_net k\<close> that of the \<open>k\<close>-th POST to the token endpoint,
  \<open>time_time k\<close> the \<open>k\<close>-th reading of \<open>time.time()\<close>. \<open>float_of s\<close> is Python's
  \<open>float(s)\<close> on a string (\<open>None\<close> when it raises \<open>ValueError\<close>; the strings it
  maps to a non-finite float are outside the model) and \<open>json_loads s\<close> is
  \<open>resp.json()\<close> on a body \<open>s\<close> (\<open>None\<close> when it raises \<open>json.JSONDecodeError\<close>).
\<close>

datatype outcome = Fails string | Responds response

record world =
  api_net :: "nat \<Rightarrow> outcome"
  token_net :: "nat \<Rightarrow> outcome"
  time_time :: "nat \<Rightarrow> real"
  float_of :: "string \<Rightarrow> real option"
  json_loads :: "string \<Rightarrow> json option"

record token_cache =
  access_token :: json
  expires_at :: real

text \<open>
  The mutable state: the token manager's \<open>_cache\<close>, how many calls of each kind were
  made so far, and the durations passed to \<open>time.sleep\<close>, oldest first.
\<close>

record state =
  cache :: "token_cache option"
  api_calls :: nat
  token_calls :: nat
  time_reads :: nat
  sleeps :: "real list"

text \<open>
  \<open>time.sleep\<close> converts the duration to a signed 64-bit count of nanoseconds
  (CPython 3.5 and later): a duration beyond \<open>2^63\<close> nanoseconds, about 9.22e9 seconds,
  raises \<open>OverflowError\<close>, and a negative one raises \<open>ValueError\<close>. Otherwise the call
  sleeps. The rounding of floats at the bound is outside the model.
\<close>

definition SLEEP_MAX :: real where
  "SLEEP_MAX = 2 ^ 63 / 10 ^ 9"

definition time_sleep :: "real \<Rightarrow> state \<Rightarrow> exn + state" where
  "time_sleep d st =
     (if \<bar>d\<bar> > SLEEP_MAX then Inl OverflowError
      else if d < 0 then Inl ValueError
      else Inr (st\<lparr>sleeps := sleeps st @ [d]\<rparr>))"

section \<open>auth.py: the OAuth2 token manager\<close>

text \<open>\<open>dict.get(key, default)\<close> on a dict given by its items.\<close>

definition dict_get :: "(string \<times> json) list \<Rightarrow> string \<Rightarrow> json \<Rightarrow> json" where
  "dict_get kvs k d = (case map_of kvs k of None \<Rightarrow> d | Some v \<Rightarrow> v)"

text \<open>\<open>Response.is_success\<close>, which \<open>raise_for_status\<close> tests.\<close>

definition is_success :: "response \<Rightarrow> bool" where
  "is_success r = (200 \<le> status_code r \<and> status_code r \<le> 299)"

text \<open>
  \<open>time.time() + data.get("expires_in", 3600)\<close>: a number is added, \<open>True\<close> and
  \<open>False\<close> count as 1 and 0, anything else raises \<open>TypeError\<close>.
\<close>

fun add_seconds :: "real \<Rightarrow> json \<Rightarrow> exn + real" where
  "add_seconds now (JNum x) = Inr (now + x)"
| "add_seconds now (JBool b) = Inr (now + (if b then 1 else 0))"
| "add_seconds now _ = Inl TypeError"

text \<open>Lines 38 to 53 of \<open>get_token\<close>: the POST to the token endpoint and the new cache.\<close>

definition refresh :: "world \<Rightarrow> state \<Rightarrow> (exn + json) \<times> state" where
  "refresh W st =
     (let st1 = st\<lparr>token_calls := Suc (token_calls st)\<rparr> in
      case token_net W (token_calls st) of
        Fails x \<Rightarrow> (Inl (TransportError x), st1)
      | Responds resp \<Rightarrow>
          if \<not> is_success resp then (Inl (HTTPStatusError (status_code resp)), st1)
          else (case json_loads W (content resp) of
              None \<Rightarrow> (Inl JSONDecodeError, st1)
            | Some (JObj kvs) \<Rightarrow>
                (case map_of kvs ''access_token'' of
                   None \<Rightarrow> (Inl KeyError, st1)
                 | Some tok \<Rightarrow>
                     (let st2 = st1\<lparr>time_reads := Suc (time_reads st1)\<rparr> in
                      case add_seconds (time_time W (time_reads st1))
                             (dict_get kvs ''expires_in'' (JNum 3600)) of
                        Inl e \<Rightarrow> (Inl e, st2)
                      | Inr t \<Rightarrow>
                          (Inr tok, st2\<lparr>cache := Some \<lparr>access_token = tok, expires_at = t\<rparr>\<rparr>)))
            | Some _ \<Rightarrow> (Inl TypeError, st1)))"

text \<open>
  \<open>get_token\<close>: the clock is read only when a cache exists (\<open>and\<close> short-circuits).
\<close>

definition get_token :: "world \<Rightarrow> state \<Rightarrow> (exn + json) \<times> state" where
  "get_token W st =
     (case cache st of
        None \<Rightarrow> refresh W st
      | Some c \<Rightarrow>
          (let st1 = st\<lparr>time_reads := Suc (time_reads st)\<rparr> in
           if time_time W (time_reads st) < expires_at c - 30
           then (Inr (access_token c), st1)
           else refresh W st1))"

section \<open>client.py: the request executor\<close>

text \<open>
  The client's credentials: \<open>_api_key\<close>, and whether a token manager \<open>_oauth\<close> was
  created. The header that \<open>_headers\<close> attaches is one of two, or none.
\<close>

record client =
  api_key :: "string option"
  oauth :: bool

datatype auth_header = X_Api_Key string | Authorization_Bearer json

definition MAX_RETRIES :: nat where
  "MAX_RETRIES = 3"

definition headers :: "world \<Rightarrow> client \<Rightarrow> state \<Rightarrow> (exn + auth_header list) \<times> state" where
  "headers W cl st =
     (case api_key cl of
        Some (c # cs) \<Rightarrow> (Inr [X_Api_Key (c # cs)], st)
      | _ \<Rightarrow>
          if oauth cl then
            (case get_token W st of
               (Inl e, st1) \<Rightarrow> (Inl e, st1)
             | (Inr tok, st1) \<Rightarrow> (Inr [Authorization_Bearer tok], st1))
          else (Inr [], st))"

text \<open>
  The \<open>try\<close> block of \<open>_request\<close>: the headers are built first (an argument of the
  call), then the request is sent. Either step can raise.
\<close>

definition send :: "world \<Rightarrow> client \<Rightarrow> state \<Rightarrow> (exn + response) \<times> state" where
  "send W cl st =
     (case headers W cl st of
        (Inl e, st1) \<Rightarrow> (Inl e, st1)
      | (Inr hs, st1) \<Rightarrow>
          (let st2 = st1\<lparr>api_calls := Suc (api_calls st1)\<rparr> in
           case api_net W (api_calls st1) of
             Fails x \<Rightarrow> (Inl (TransportError x), st2)
           | Responds resp \<Rightarrow> (Inr resp, st2)))"

text \<open>\<open>resp.json() if resp.content else d\<close>.\<close>

definition json_or :: "world \<Rightarrow> response \<Rightarrow> json \<Rightarrow> exn + json" where
  "json_or W resp d =
     (if content resp \<noteq> [] then
        (case json_loads W (content resp) of None \<Rightarrow> Inl JSONDecodeError | Some j \<Rightarrow> Inr j)
      else Inr d)"

text \<open>
  \<open>float(resp.headers.get("Retry-After", 2**attempt))\<close>: the default is used only
  when the header is absent; a header that is present goes through \<open>float\<close>.
\<close>

definition retry_after_of :: "world \<Rightarrow> nat \<Rightarrow> response \<Rightarrow> exn + real" where
  "retry_after_of W attempt resp =
     (case retry_after_header resp of
        None \<Rightarrow> Inr (2 ^ attempt)
      | Some s \<Rightarrow> (case float_of W s of None \<Rightarrow> Inl ValueError | Some x \<Rightarrow> Inr x))"

text \<open>
  What one pass of the loop body does with its outcome: return a value, raise, or
  go on to the next attempt with the given \<open>last_err\<close>.
\<close>

datatype flow = Return json | Raise exn | Continue "exn option"

text \<open>Lines 118 to 140: the classification of a response by its status.\<close>

definition handle_response ::
    "world \<Rightarrow> nat \<Rightarrow> exn option \<Rightarrow> response \<Rightarrow> state \<Rightarrow> flow \<times> state" where
  "handle_response W attempt last_err resp st =
     (if status_code resp = 429 then
        (case retry_after_of W attempt resp of
           Inl e \<Rightarrow> (Raise e, st)
         | Inr retry_after \<Rightarrow>
             if attempt < MAX_RETRIES - 1 then
               (case time_sleep retry_after st of
                  Inl e \<Rightarrow> (Raise e, st)
                | Inr st1 \<Rightarrow> (Continue last_err, st1))
             else
               (case json_or W resp JNull of
                  Inl e \<Rightarrow> (Raise e, st)
                | Inr r \<Rightarrow> (Raise (new_RateLimitError (Some retry_after) r), st)))
      else if status_code resp \<ge> 500 then
        (let err = new_ApiError (status_code resp) (JStr (content resp)) JNull in
         if attempt < MAX_RETRIES - 1 then
           (case time_sleep (2 ^ attempt) st of
              Inl e \<Rightarrow> (Raise e, st)
            | Inr st1 \<Rightarrow> (Continue (Some err), st1))
         else (Raise err, st))
      else if status_code resp = 401 \<or> status_code resp = 403 then
        (case json_or W resp (JObj []) of
           Inl e \<Rightarrow> (Raise e, st)
         | Inr (JObj kvs) \<Rightarrow>
             (Raise (new_AuthenticationError
                       (dict_get kvs ''message'' (JStr ''Authentication failed'')) (JObj kvs)), st)
         | Inr _ \<Rightarrow> (Raise AttributeError, st))
      else if status_code resp \<ge> 400 then
        (case json_or W resp (JObj []) of
           Inl e \<Rightarrow> (Raise e, st)
         | Inr (JObj kvs) \<Rightarrow>
             (Raise (new_ApiError (status_code resp)
                       (dict_get kvs ''message'' (JStr ''Request failed'')) (JObj kvs)), st)
         | Inr _ \<Rightarrow> (Raise AttributeError, st))
      else
        (case json_loads W (content resp) of
           None \<Rightarrow> (Raise JSONDecodeError, st)
         | Some j \<Rightarrow> (Return j, st)))"

text \<open>
  The loop \<open>for attempt in range(_MAX_RETRIES)\<close>, over the attempts still to make.
  Running out of attempts is \<open>Continue last_err\<close>: control reaches the statement
  after the loop.
\<close>

fun attempts ::
    "world \<Rightarrow> client \<Rightarrow> nat list \<Rightarrow> exn option \<Rightarrow> state \<Rightarrow> flow \<times> state" where
  "attempts W cl [] last_err st = (Continue last_err, st)"
| "attempts W cl (attempt # rest) last_err st =
     (case send W cl st of
        (Inl e, st1) \<Rightarrow>
          if is_transport e then
            (case time_sleep (2 ^ attempt) st1 of
               Inl e' \<Rightarrow> (Raise e', st1)
             | Inr st2 \<Rightarrow> attempts W cl rest (Some e) st2)
          else (Raise e, st1)
      | (Inr resp, st1) \<Rightarrow>
          (case handle_response W attempt last_err resp st1 of
             (Continue le, st2) \<Rightarrow> attempts W cl rest le st2
           | (Return j, st2) \<Rightarrow> (Return j, st2)
           | (Raise e', st2) \<Rightarrow> (Raise e', st2)))"

text \<open>
  \<open>_request\<close>: the loop, then \<open>raise last_err or ApiError(0, "Request failed after
  retries")\<close> (an exception object is truthy, so \<open>or\<close> takes the right operand only
  when \<open>last_err\<close> is \<open>None\<close>).
\<close>

definition fallback_error :: exn where
  "fallback_error = new_ApiError 0 (JStr ''Request failed after retries'') JNull"

definition request :: "world \<Rightarrow> client \<Rightarrow> state \<Rightarrow> (exn + json) \<times> state" where
  "request W cl st =
     (case attempts W cl [0..<MAX_RETRIES] None st of
        (Return j, st1) \<Rightarrow> (Inr j, st1)
      | (Raise e, st1) \<Rightarrow> (Inl e, st1)
      | (Continue last_err, st1) \<Rightarrow>
          (Inl (case last_err of Some e \<Rightarrow> e | None \<Rightarrow> fallback_error), st1))"

section \<open>client.py: serialization of the request objects\<close>

text \<open>
  The six request dataclasses of \<open>models.py\<close>. Every field is declared \<open>str\<close>; the
  arguments of a constructor are the fields in the order of their declaration.
\<close>

datatype request_object =
    AddressRequest string string string string string string
  | TaxIdRequest string string string
  | BankAccountRequest string string string string string
  | BusinessLookupRequest string string string string
  | SanctionsRequest string string string
  | DirectorsRequest string string string

text \<open>\<open>dataclasses.asdict\<close>: the field names with their values, in declaration order.\<close>

fun asdict :: "request_object \<Rightarrow> (string \<times> json) list" where
  "asdict (AddressRequest address_line1 city country address_line2 state postal_code) =
     [(''address_line1'', JStr address_line1), (''city'', JStr city),
      (''country'', JStr country), (''address_line2'', JStr address_line2),
      (''state'', JStr state), (''postal_code'', JStr postal_code)]"
| "asdict (TaxIdRequest tax_id country tax_id_type) =
     [(''tax_id'', JStr tax_id), (''country'', JStr country),
      (''tax_id_type'', JStr tax_id_type)]"
| "asdict (BankAccountRequest account_number country routing_number iban bank_code) =
     [(''account_number'', JStr account_number), (''country'', JStr country),
      (''routing_number'', JStr routing_number), (''iban'', JStr iban),
      (''bank_code'', JStr bank_code)]"
| "asdict (BusinessLookupRequest company_name country registration_number state) =
     [(''company_name'', JStr company_name), (''country'', JStr country),
      (''registration_number'', JStr registration_number), (''state'', JStr state)]"
| "asdict (SanctionsRequest entity_name entity_type country) =
     [(''entity_name'', JStr entity_name), (''entity_type'', JStr entity_type),
      (''country'', JStr country)]"
| "asdict (DirectorsRequest company_name country registration_number) =
     [(''company_name'', JStr company_name), (''country'', JStr country),
      (''registration_number'', JStr registration_number)]"

text \<open>
  \<open>str.split(sep)\<close> for a one-character separator; the result is never empty.
\<close>

fun split_on :: "char \<Rightarrow> string \<Rightarrow> string list" where
  "split_on sep [] = [[]]"
| "split_on sep (c # cs) =
     (if c = sep then [] # split_on sep cs
      else (case split_on sep cs of [] \<Rightarrow> [[c]] | p # ps \<Rightarrow> (c # p) # ps))"

text \<open>
  \<open>str.capitalize\<close> on ASCII text (field names are ASCII identifiers): the first
  character in upper case, the others in lower case.
\<close>

definition upper :: "char \<Rightarrow> char" where
  "upper c = (let n = (of_char c :: nat) in if 97 \<le> n \<and> n \<le> 122 then char_of (n - 32) else c)"

definition lower :: "char \<Rightarrow> char" where
  "lower c = (let n = (of_char c :: nat) in if 65 \<le> n \<and> n \<le> 90 then char_of (n + 32) else c)"

fun capitalize :: "string \<Rightarrow> string" where
  "capitalize [] = []"
| "capitalize (c # cs) = upper c # map lower cs"

definition to_camel :: "string \<Rightarrow> string" where
  "to_camel name =
     (case split_on CHR ''_'' name of
        [] \<Rightarrow> []
      | p # ps \<Rightarrow> p @ concat (map capitalize ps))"

text \<open>Python's \<open>v == 0\<close>: true of the number zero and of \<open>False\<close>.\<close>

fun eq_zero :: "json \<Rightarrow> bool" where
  "eq_zero (JNum x) = (x = 0)"
| "eq_zero (JBool b) = (\<not> b)"
| "eq_zero _ = False"

text \<open>A dict built by inserting items in order: a later item replaces an earlier one.\<close>

definition dict_of :: "(string \<times> json) list \<Rightarrow> (string \<rightharpoonup> json)" where
  "dict_of items = fold (\<lambda>(k, v) m. m(k \<mapsto> v)) items Map.empty"

definition serialize_items :: "(string \<times> json) list \<Rightarrow> (string \<rightharpoonup> json)" where
  "serialize_items raw =
     dict_of [(to_camel k, v). (k, v) \<leftarrow> raw, v \<noteq> JStr [] \<and> \<not> eq_zero v]"

definition serialize :: "request_object \<Rightarrow> (string \<rightharpoonup> json)" where
  "serialize obj = serialize_items (asdict obj)"

section \<open>Stubs for the examples\<close>

text \<open>
  The examples run the client against a scripted network: the outcomes are served
  in order, and a call beyond the script finds the connection refused. The clock
  stands still. The two parsers are tables of the literals the examples use; they
  reject every other string.
\<close>

definition long_delay :: string where
  "long_delay = ''10000000000''"

definition stub_float :: "string \<Rightarrow> real option" where
  "stub_float s =
     (if s = ''1'' then Some 1
      else if s = ''7'' then Some 7
      else if s = long_delay then Some 10000000000
      else None)"

definition valid_body :: string where
  \<open>valid_body = ''{"isValid": true}''\<close>

definition denied_body :: string where
  \<open>denied_body = ''{"message": "denied"}''\<close>

definition token_body :: string where
  \<open>token_body = ''{"access_token": "t1", "expires_in": 120}''\<close>

definition html_body :: string where
  "html_body = ''<html>Unauthorized</html>''"

definition http_date :: string where
  "http_date = ''Wed, 21 Oct 2015 07:28:00 GMT''"

definition stub_json :: "string \<Rightarrow> json option" where
  "stub_json s =
     (if s = ''{}'' then Some (JObj [])
      else if s = ''[]'' then Some (JArr [])
      else if s = token_body
        then Some (JObj [(''access_token'', JStr ''t1''), (''expires_in'', JNum 120)])
      else if s = valid_body then Some (JObj [(''isValid'', JBool True)])
      else if s = denied_body then Some (JObj [(''message'', JStr ''denied'')])
      else None)"

definition script :: "outcome list \<Rightarrow> nat \<Rightarrow> outcome" where
  "script outs k = (if k < length outs then outs ! k else Fails ''connection refused'')"

definition stub_world :: "outcome list \<Rightarrow> outcome list \<Rightarrow> real \<Rightarrow> world" where
  "stub_world api tok now =
     \<lparr>api_net = script api, token_net = script tok, time_time = (\<lambda>k. now),
      float_of = stub_float, json_loads = stub_json\<rparr>"

definition fresh :: state where
  "fresh = \<lparr>cache = None, api_calls = 0, token_calls = 0, time_reads = 0, sleeps = []\<rparr>"

definition key_client :: client where
  "key_client = \<lparr>api_key = Some ''svm-key'', oauth = False\<rparr>"

definition reply :: "int \<Rightarrow> string option \<Rightarrow> string \<Rightarrow> outcome" where
  "reply sc ra body = Responds \<lparr>status_code = sc, retry_after_header = ra, content = body\<rparr>"

text \<open>A client that attaches no bearer token: an API key is set, or no OAuth2 manager exists.\<close>

definition static_auth :: "client \<Rightarrow> bool" where
  "static_auth cl = (case api_key cl of Some (c # cs) \<Rightarrow> True | _ \<Rightarrow> \<not> oauth cl)"

text \<open>
  The world in which the \<open>k\<close>-th response of the resource endpoint carries the status
  \<open>sc\<close> and everything else is as in \<open>W\<close>.
\<close>

definition relabel :: "world \<Rightarrow> nat \<Rightarrow> int \<Rightarrow> world" where
  "relabel W k sc =
     W\<lparr>api_net := (\<lambda>j. if j = k then (case api_net W k of
                                         Fails x \<Rightarrow> Fails x
                                       | Responds r \<Rightarrow> Responds (r\<lparr>status_code := sc\<rparr>))
                          else api_net W j)\<rparr>"

section \<open>Facts about the model\<close>

lemma attempt_range: "[0..<MAX_RETRIES] = [0, 1, 2]"
  by (simp add: MAX_RETRIES_def upt_rec)

lemma headers_static: "static_auth cl \<Longrightarrow> \<exists>hs. headers W cl st = (Inr hs, st)"
  by (auto simp add: static_auth_def headers_def split: option.splits list.splits)

lemma send_static:
  "static_auth cl \<Longrightarrow>
   send W cl st =
     ((case api_net W (api_calls st) of
         Fails x \<Rightarrow> Inl (TransportError x)
       | Responds r \<Rightarrow> Inr r),
      st\<lparr>api_calls := Suc (api_calls st)\<rparr>)"
  using headers_static[of cl W st]
  by (auto simp add: send_def Let_def split: outcome.splits)

lemma refresh_token_calls: "token_calls (snd (refresh W st)) = Suc (token_calls st)"
  by (simp add: refresh_def Let_def split: outcome.splits option.splits json.splits sum.splits)

lemma refresh_failure_keeps_cache:
  "fst (refresh W st) = Inl e \<Longrightarrow> cache (snd (refresh W st)) = cache st"
  by (auto simp add: refresh_def Let_def
      split: outcome.splits option.splits json.splits sum.splits if_splits)

lemma refresh_keeps: "sleeps (snd (refresh W st)) = sleeps st \<and> api_calls (snd (refresh W st)) = api_calls st"
  by (simp add: refresh_def Let_def split: outcome.splits option.splits json.splits sum.splits)

lemma get_token_keeps:
  "sleeps (snd (get_token W st)) = sleeps st \<and> api_calls (snd (get_token W st)) = api_calls st"
  by (simp add: get_token_def Let_def refresh_keeps split: option.splits)

lemma headers_keeps:
  "sleeps (snd (headers W cl st)) = sleeps st \<and> api_calls (snd (headers W cl st)) = api_calls st"
  using get_token_keeps[of W st]
  by (auto simp add: headers_def split: option.splits list.splits sum.splits prod.splits)

lemma send_response:
  "send W cl st = (Inr resp, st1) \<Longrightarrow> sleeps st1 = sleeps st \<and> api_calls st1 = Suc (api_calls st)"
  using headers_keeps[of W cl st]
  by (auto simp add: send_def Let_def split: sum.splits prod.splits outcome.splits)

lemma handle_auth_raises:
  "status_code resp = 401 \<or> status_code resp = 403 \<Longrightarrow>
   \<exists>e. handle_response W attempt le resp st = (Raise e, st)"
  by (auto simp add: handle_response_def split: sum.splits json.splits)

lemma handle_auth_error:
  "status_code resp = 401 \<or> status_code resp = 403 \<Longrightarrow>
   json_or W resp (JObj []) = Inr (JObj kvs) \<Longrightarrow>
   handle_response W attempt le resp st =
     (Raise (new_AuthenticationError (dict_get kvs ''message'' (JStr ''Authentication failed''))
               (JObj kvs)), st)"
  by (auto simp add: handle_response_def)

lemma json_or_error: "json_or W r d = Inl e \<Longrightarrow> e = JSONDecodeError"
  by (auto simp add: json_or_def split: if_splits option.splits)

lemma retry_after_error: "retry_after_of W a r = Inl e \<Longrightarrow> e = ValueError"
  by (auto simp add: retry_after_of_def split: option.splits)

lemma time_sleep_error: "time_sleep d st = Inl e \<Longrightarrow> e = ValueError \<or> e = OverflowError"
  by (auto simp add: time_sleep_def split: if_splits)


lemma short_sleeps:
  "time_sleep 1 st = Inr (st\<lparr>sleeps := sleeps st @ [1]\<rparr>)"
  "time_sleep 2 st = Inr (st\<lparr>sleeps := sleeps st @ [2]\<rparr>)"
  "time_sleep 4 st = Inr (st\<lparr>sleeps := sleeps st @ [4]\<rparr>)"
  "time_sleep 7 st = Inr (st\<lparr>sleeps := sleeps st @ [7]\<rparr>)"
  by (simp_all add: time_sleep_def SLEEP_MAX_def)

lemma add_seconds_error: "add_seconds t v = Inl e \<Longrightarrow> e = TypeError"
  by (cases v) auto


lemma handle_continue_early:
  "handle_response W attempt le resp st = (Continue le', st') \<Longrightarrow> attempt < MAX_RETRIES - 1"
  by (auto simp add: handle_response_def Let_def split: if_splits sum.splits json.splits option.splits)

lemma attempts_fallthrough:
  "attempts W cl as le st = (Continue le', st') \<Longrightarrow> as \<noteq> [] \<Longrightarrow>
   MAX_RETRIES - 1 \<le> last as \<Longrightarrow> \<exists>x. le' = Some (TransportError x)"
proof (induction as arbitrary: le st)
  case Nil
  then show ?case by simp
next
  case (Cons a as)
  show ?case
  proof (cases "send W cl st")
    case (Pair r st1)
    show ?thesis
    proof (cases r)
      case (Inl e)
      show ?thesis
      proof (cases e)
        case (TransportError x)
        with Cons.prems Pair Inl
        obtain st2 where run: "attempts W cl as (Some (TransportError x)) st2 = (Continue le', st')"
          by (cases "time_sleep (2 ^ a) st1") auto
        show ?thesis
        proof (cases as)
          case Nil
          with run show ?thesis by auto
        next
          case (Cons b bs)
          with Cons.IH[OF run] Cons.prems show ?thesis by auto
        qed
      qed (use Cons.prems Pair Inl in simp_all)
    next
      case (Inr resp)
      show ?thesis
      proof (cases "handle_response W a le resp st1")
        case (Pair fl st2)
        show ?thesis
        proof (cases fl)
          case (Continue le2)
          with Cons.prems \<open>send W cl st = (r, st1)\<close> Inr Pair
          have run: "attempts W cl as le2 st2 = (Continue le', st')" by simp
          from Pair Continue have early: "a < MAX_RETRIES - 1"
            by (auto dest: handle_continue_early)
          show ?thesis
          proof (cases as)
            case Nil
            with Cons.prems early show ?thesis by auto
          next
            case (Cons b bs)
            with Cons.IH[OF run] Cons.prems show ?thesis by auto
          qed
        qed (use Cons.prems \<open>send W cl st = (r, st1)\<close> Inr Pair in simp_all)
      qed
    qed
  qed
qed


lemma fallback_error_status: "fallback_error = ApiError a \<Longrightarrow> err_status_code a = 0"
  by (auto simp add: fallback_error_def new_ApiError_def ApiError_init_def)

lemma handle_raise_status:
  "handle_response W attempt le resp st = (Raise (ApiError a), st') \<Longrightarrow> 400 \<le> err_status_code a"
  by (auto simp add: handle_response_def Let_def new_ApiError_def
        new_AuthenticationError_def new_RateLimitError_def ApiError_init_def
      dest: json_or_error retry_after_error time_sleep_error
      split: if_splits sum.splits json.splits option.splits)

lemma handle_raise_not_fallback:
  "handle_response W attempt le resp st = (Raise e, st') \<Longrightarrow> e \<noteq> fallback_error"
proof
  assume h: "handle_response W attempt le resp st = (Raise e, st')" and e: "e = fallback_error"
  obtain a where a: "fallback_error = ApiError a"
    by (simp add: fallback_error_def new_ApiError_def)
  from h e a handle_raise_status[of W attempt le resp st a st']
  have "400 \<le> err_status_code a" by simp
  with fallback_error_status[OF a] show False by simp
qed

lemma refresh_error: "refresh W st = (Inl e, st') \<Longrightarrow> e \<noteq> ApiError a"
  by (auto simp add: refresh_def Let_def dest: add_seconds_error
      split: outcome.splits option.splits json.splits sum.splits if_splits)

lemma send_error_not_fallback:
  "send W cl st = (Inl e, st1) \<Longrightarrow> e \<noteq> fallback_error"
  by (auto simp add: send_def headers_def get_token_def Let_def fallback_error_def new_ApiError_def
        dest: refresh_error
      split: option.splits list.splits sum.splits prod.splits outcome.splits if_splits)

lemma attempts_raise_not_fallback:
  "attempts W cl as le st = (Raise e, st') \<Longrightarrow> e \<noteq> fallback_error"
proof (induction as arbitrary: le st)
  case Nil
  then show ?case by simp
next
  case (Cons a as)
  obtain r st1 where s: "send W cl st = (r, st1)" by (cases "send W cl st")
  show ?case
  proof (cases r)
    case (Inl x)
    show ?thesis
    proof (cases "is_transport x")
      case True
      show ?thesis
      proof (cases "time_sleep (2 ^ a) st1")
        case (Inl e')
        with Cons.prems s \<open>r = Inl x\<close> True have "e = e'" by simp
        with Inl show ?thesis
          by (auto simp add: fallback_error_def new_ApiError_def dest: time_sleep_error)
      next
        case (Inr st2)
        with Cons.prems s \<open>r = Inl x\<close> True
        have "attempts W cl as (Some x) st2 = (Raise e, st')" by simp
        then show ?thesis by (rule Cons.IH)
      qed
    next
      case False
      with Cons.prems s Inl have "e = x" by simp
      with s Inl show ?thesis by (auto dest: send_error_not_fallback)
    qed
  next
    case (Inr resp)
    obtain fl st2 where h: "handle_response W a le resp st1 = (fl, st2)"
      by (cases "handle_response W a le resp st1")
    show ?thesis
    proof (cases fl)
      case (Return j)
      with Cons.prems s Inr h show ?thesis by simp
    next
      case (Raise x)
      with Cons.prems s Inr h have "e = x" by simp
      with h Raise show ?thesis by (auto dest: handle_raise_not_fallback)
    next
      case (Continue le2)
      with Cons.prems s Inr h have "attempts W cl as le2 st2 = (Raise e, st')" by simp
      then show ?thesis by (rule Cons.IH)
    qed
  qed
qed

lemma handle_403_as_401:
  "status_code r = 403 \<Longrightarrow>
   handle_response W a le (r\<lparr>status_code := 401\<rparr>) st = handle_response W a le r st"
  by (simp add: handle_response_def json_or_def retry_after_of_def)

lemma relabel_api_net:
  "api_net (relabel W k sc) j =
     (if j = k then (case api_net W k of
                       Fails x \<Rightarrow> Fails x
                     | Responds r \<Rightarrow> Responds (r\<lparr>status_code := sc\<rparr>))
      else api_net W j)"
  by (simp add: relabel_def)

lemma relabel_fields:
  "token_net (relabel W k sc) = token_net W"
  "time_time (relabel W k sc) = time_time W"
  "float_of (relabel W k sc) = float_of W"
  "json_loads (relabel W k sc) = json_loads W"
  by (simp_all add: relabel_def)

lemma handle_relabel: "handle_response (relabel W k sc) = handle_response W"
  unfolding handle_response_def json_or_def retry_after_of_def relabel_fields ..

lemma refresh_relabel: "refresh (relabel W k sc) = refresh W"
  unfolding refresh_def relabel_fields ..

lemma headers_relabel: "headers (relabel W k sc) = headers W"
  unfolding headers_def get_token_def refresh_relabel relabel_fields ..

lemma attempts_relabel:
  assumes "api_net W k = Responds r" "status_code r = 403"
  shows "attempts (relabel W k 401) cl as le st = attempts W cl as le st"
proof (induction as arbitrary: le st)
  case Nil
  show ?case by simp
next
  case (Cons a as)
  obtain h st1 where h: "headers W cl st = (h, st1)" by (cases "headers W cl st")
  show ?case
  proof (cases h)
    case (Inl e)
    with h show ?thesis
      by (simp add: send_def headers_relabel Cons.IH split: sum.splits)
  next
    case (Inr hs)
    show ?thesis
    proof (cases "api_calls st1 = k")
      case True
      with h Inr assms show ?thesis
        by (simp add: send_def headers_relabel Let_def handle_relabel Cons.IH relabel_api_net
              handle_403_as_401 split: sum.splits outcome.splits prod.splits flow.splits)
    next
      case False
      with h Inr show ?thesis
        by (simp add: send_def headers_relabel Let_def handle_relabel Cons.IH relabel_api_net
              split: sum.splits outcome.splits prod.splits flow.splits)
    qed
  qed
qed

lemma handle_auth_status:
  "handle_response W a le resp st = (Raise (AuthenticationError e), st') \<Longrightarrow>
   err_status_code e = 401"
  by (auto simp add: handle_response_def Let_def new_ApiError_def
        new_AuthenticationError_def new_RateLimitError_def ApiError_init_def
      dest: json_or_error retry_after_error time_sleep_error
      split: if_splits sum.splits json.splits option.splits)

lemma camel_names:
  "to_camel ''address_line1'' = ''addressLine1''"
  "to_camel ''address_line2'' = ''addressLine2''"
  "to_camel ''city'' = ''city''"
  "to_camel ''country'' = ''country''"
  "to_camel ''state'' = ''state''"
  "to_camel ''postal_code'' = ''postalCode''"
  "to_camel ''tax_id'' = ''taxId''"
  "to_camel ''tax_id_type'' = ''taxIdType''"
  "to_camel ''account_number'' = ''accountNumber''"
  "to_camel ''routing_number'' = ''routingNumber''"
  "to_camel ''iban'' = ''iban''"
  "to_camel ''bank_code'' = ''bankCode''"
  "to_camel ''company_name'' = ''companyName''"
  "to_camel ''registration_number'' = ''registrationNumber''"
  "to_camel ''entity_name'' = ''entityName''"
  "to_camel ''entity_type'' = ''entityType''"
  "to_camel ''amount_due'' = ''amountDue''"
  by code_simp+

lemma fold_update_other:
  "k \<notin> fst ` set xs \<Longrightarrow> fold (\<lambda>(k, v) m. m(k \<mapsto> v)) xs m k = m k"
  by (induction xs arbitrary: m) auto

lemma fold_update_member:
  "distinct (map fst xs) \<Longrightarrow> (k, v) \<in> set xs \<Longrightarrow>
   fold (\<lambda>(k, v) m. m(k \<mapsto> v)) xs m k = Some v"
proof (induction xs arbitrary: m)
  case Nil
  then show ?case by simp
next
  case (Cons x xs)
  show ?case
  proof (cases "x = (k, v)")
    case True
    with Cons.prems have "k \<notin> fst ` set xs" by force
    then have "fold (\<lambda>(k, v) m. m(k \<mapsto> v)) xs (m(k \<mapsto> v)) k = Some v"
      by (simp add: fold_update_other)
    with True show ?thesis by (simp del: fun_upd_apply)
  next
    case False
    with Cons show ?thesis by auto
  qed
qed

lemma kept_items:
  "[(to_camel k, v). (k, v) \<leftarrow> raw, v \<noteq> JStr [] \<and> \<not> eq_zero v] =
   map (\<lambda>(k, v). (to_camel k, v)) (filter (\<lambda>(k, v). v \<noteq> JStr [] \<and> \<not> eq_zero v) raw)"
  by (induction raw) auto

lemma kept_items_distinct:
  assumes "inj_on to_camel (fst ` set raw)" "distinct (map fst raw)"
  shows "distinct (map fst (map (\<lambda>(k, v). (to_camel k, v))
           (filter (\<lambda>(k, v). v \<noteq> JStr [] \<and> \<not> eq_zero v) raw)))"
proof -
  let ?kept = "filter (\<lambda>(k, v). v \<noteq> JStr [] \<and> \<not> eq_zero v) raw"
  have eq: "map fst (map (\<lambda>(k, v). (to_camel k, v)) ?kept) = map to_camel (map fst ?kept)"
    by (simp add: case_prod_beta comp_def)
  have d: "distinct (map fst ?kept)"
    using assms(2) by (rule distinct_map_filter)
  have i: "inj_on to_camel (set (map fst ?kept))"
    using assms(1) by (rule inj_on_subset) auto
  from d i have "distinct (map to_camel (map fst ?kept))"
    using distinct_map[of to_camel "map fst ?kept"] by blast
  then show ?thesis by (simp only: eq)
qed

lemma serialize_items_kept:
  assumes "inj_on to_camel (fst ` set raw)" "distinct (map fst raw)" "(k, v) \<in> set raw"
      and "v \<noteq> JStr []" "\<not> eq_zero v"
  shows "serialize_items raw (to_camel k) = Some v"
proof -
  from assms(3-5) have "(to_camel k, v) \<in> set (map (\<lambda>(k, v). (to_camel k, v))
           (filter (\<lambda>(k, v). v \<noteq> JStr [] \<and> \<not> eq_zero v) raw))"
    by force
  with kept_items_distinct[OF assms(1,2)] show ?thesis
    unfolding serialize_items_def dict_of_def kept_items by (rule fold_update_member)
qed

lemma serialize_items_omitted:
  assumes "inj_on to_camel (fst ` set raw)" "distinct (map fst raw)" "(k, v) \<in> set raw"
      and "v = JStr [] \<or> eq_zero v"
  shows "serialize_items raw (to_camel k) = None"
proof -
  have "to_camel k \<notin> fst ` set (map (\<lambda>(k, v). (to_camel k, v))
           (filter (\<lambda>(k, v). v \<noteq> JStr [] \<and> \<not> eq_zero v) raw))"
  proof
    assume "to_camel k \<in> fst ` set (map (\<lambda>(k, v). (to_camel k, v))
           (filter (\<lambda>(k, v). v \<noteq> JStr [] \<and> \<not> eq_zero v) raw))"
    then obtain k' v' where m: "(k', v') \<in> set raw" and c: "to_camel k' = to_camel k"
      and keep: "v' \<noteq> JStr [] \<and> \<not> eq_zero v'"
      by auto
    from m assms(3) have "k' \<in> fst ` set raw" "k \<in> fst ` set raw" by force+
    with c assms(1) have "k' = k" by (auto dest: inj_onD)
    with m assms(2,3) have "v' = v" by (auto dest: eq_key_imp_eq_value)
    with keep assms(4) show False by simp
  qed
  then show ?thesis
    unfolding serialize_items_def dict_of_def kept_items by (simp add: fold_update_other)
qed

lemma stub_json_values:
  "stub_json ''{}'' = Some (JObj [])"
  "stub_json valid_body = Some (JObj [(''isValid'', JBool True)])"
  "stub_json denied_body = Some (JObj [(''message'', JStr ''denied'')])"
  "stub_json html_body = None"
  "stub_json ''[]'' = Some (JArr [])"
  "stub_json token_body = Some (JObj [(''access_token'', JStr ''t1''), (''expires_in'', JNum 120)])"
  by (simp_all add: stub_json_def valid_body_def denied_body_def html_body_def token_body_def)

lemma stub_float_values:
  "stub_float ''1'' = Some 1"
  "stub_float ''7'' = Some 7"
  "stub_float http_date = None"
  "stub_float long_delay = Some 10000000000"
  by (simp_all add: stub_float_def http_date_def long_delay_def)

lemma bodies_not_empty: "valid_body \<noteq> []" "denied_body \<noteq> []" "html_body \<noteq> []"
  by (simp_all add: valid_body_def denied_body_def html_body_def)

lemma retry_after_absent:
  "retry_after_header resp = None \<Longrightarrow> retry_after_of W attempt resp = Inr (2 ^ attempt)"
  by (simp add: retry_after_of_def)

lemma retry_after_rejected:
  assumes "send W cl st = (Inr resp, st1)" "status_code resp = 429"
      and "retry_after_header resp = Some h" "float_of W h = None"
  shows "attempts W cl (attempt # rest) le st = (Raise ValueError, st1)"
  using assms by (simp add: handle_response_def retry_after_of_def)

lemma error_body_rejected:
  assumes "send W cl st = (Inr resp, st1)"
      and "400 \<le> status_code resp" "status_code resp < 500" "status_code resp \<noteq> 429"
      and "content resp \<noteq> []" "json_loads W (content resp) = None"
  shows "attempts W cl (attempt # rest) le st = (Raise JSONDecodeError, st1)"
  using assms by (simp add: handle_response_def json_or_def)

lemma transport_failures_sleeps:
  assumes "static_auth cl"
      and "api_net W (api_calls st) = Fails a"
      and "api_net W (Suc (api_calls st)) = Fails b"
      and "api_net W (Suc (Suc (api_calls st))) = Fails c"
  shows "request W cl st =
           (Inl (TransportError c),
            st\<lparr>api_calls := api_calls st + 3, sleeps := sleeps st @ [1, 2, 4]\<rparr>)"
  using assms unfolding request_def attempt_range
  by (simp add: send_static short_sleeps)

section \<open>The token cache\<close>

text \<open>
  Claim C3. In every state of the token manager: when a cached token exists and the
  clock shows less than \<open>expires_at - 30\<close>, \<open>get_token\<close> returns the cached access
  token, makes no network call and leaves the cache as it is. When there is no cached
  token, or \<open>expires_at\<close> is at most 30 seconds ahead of the clock, \<open>get_token\<close> makes one
  POST to the token endpoint and nothing is served from the old cache: a 2xx answer
  with an \<open>access_token\<close> and a numeric (or absent) \<open>expires_in\<close> makes \<open>get_token\<close>
  return that new token and replace the cache by it, expiring \<open>expires_in\<close> (3600 when
  absent) after the clock reading taken then; a transport failure is raised as it is;
  and whenever the refresh fails the cache stays as it was.
\<close>

theorem get_token_cache_policy:
  "(cache st = Some c \<and> time_time W (time_reads st) < expires_at c - 30 \<longrightarrow>
      fst (get_token W st) = Inr (access_token c)
      \<and> token_calls (snd (get_token W st)) = token_calls st
      \<and> api_calls (snd (get_token W st)) = api_calls st
      \<and> cache (snd (get_token W st)) = cache st
      \<and> sleeps (snd (get_token W st)) = sleeps st)
   \<and> (cache st = None \<or> (cache st = Some c \<and> expires_at c - time_time W (time_reads st) \<le> 30) \<longrightarrow>
      token_calls (snd (get_token W st)) = Suc (token_calls st)
      \<and> api_calls (snd (get_token W st)) = api_calls st
      \<and> sleeps (snd (get_token W st)) = sleeps st
      \<and> (token_net W (token_calls st) = Responds resp \<and> is_success resp
            \<and> json_loads W (content resp) = Some (JObj kvs)
            \<and> map_of kvs ''access_token'' = Some tok
            \<and> dict_get kvs ''expires_in'' (JNum 3600) = JNum x \<longrightarrow>
          fst (get_token W st) = Inr tok
          \<and> cache (snd (get_token W st)) =
              Some \<lparr>access_token = tok,
                    expires_at =
                      time_time W (if cache st = None then time_reads st
                                   else Suc (time_reads st)) + x\<rparr>)
      \<and> (token_net W (token_calls st) = Fails msg \<longrightarrow>
          fst (get_token W st) = Inl (TransportError msg))
      \<and> (\<forall>e. fst (get_token W st) = Inl e \<longrightarrow> cache (snd (get_token W st)) = cache st))"
proof (intro conjI impI)
  assume miss: "cache st = None \<or>
                (cache st = Some c \<and> expires_at c - time_time W (time_reads st) \<le> 30)"
  define st1 where "st1 = (if cache st = None then st else st\<lparr>time_reads := Suc (time_reads st)\<rparr>)"
  from miss have g: "get_token W st = refresh W st1"
    by (auto simp add: get_token_def Let_def st1_def)
  have st1: "token_calls st1 = token_calls st" "cache st1 = cache st" "sleeps st1 = sleeps st"
    "api_calls st1 = api_calls st"
    "time_reads st1 = (if cache st = None then time_reads st else Suc (time_reads st))"
    by (simp_all add: st1_def)
  show "token_calls (snd (get_token W st)) = Suc (token_calls st)"
    by (simp add: g refresh_token_calls st1)
  show "api_calls (snd (get_token W st)) = api_calls st"
    by (simp add: g refresh_keeps st1)
  show "sleeps (snd (get_token W st)) = sleeps st"
    by (simp add: g refresh_keeps st1)
  show "\<forall>e. fst (get_token W st) = Inl e \<longrightarrow> cache (snd (get_token W st)) = cache st"
    using refresh_failure_keeps_cache[of W st1] by (simp add: g st1)
  {
    assume "token_net W (token_calls st) = Fails msg"
    then show "fst (get_token W st) = Inl (TransportError msg)"
      by (simp add: g refresh_def st1)
  }
  {
    assume ok: "token_net W (token_calls st) = Responds resp \<and> is_success resp
            \<and> json_loads W (content resp) = Some (JObj kvs)
            \<and> map_of kvs ''access_token'' = Some tok
            \<and> dict_get kvs ''expires_in'' (JNum 3600) = JNum x"
    then have r: "refresh W st1 =
        (Inr tok, st1\<lparr>token_calls := Suc (token_calls st1),
                       time_reads := Suc (time_reads st1),
                       cache := Some \<lparr>access_token = tok,
                                      expires_at = time_time W (time_reads st1) + x\<rparr>\<rparr>)"
      by (simp add: refresh_def Let_def st1(1))
    show "fst (get_token W st) = Inr tok" by (simp add: g r)
    show "cache (snd (get_token W st)) =
              Some \<lparr>access_token = tok,
                    expires_at =
                      time_time W (if cache st = None then time_reads st
                                   else Suc (time_reads st)) + x\<rparr>"
      by (simp add: g r st1(5))
  }
qed (auto simp add: get_token_def Let_def)

text \<open>
  With the clock at 1000 and a token endpoint that grants \<open>t1\<close> for 120 seconds: a token
  expiring at 1060 is served from the cache without a call; a token \<open>t0\<close> expiring at
  1020 and an empty cache are both refreshed, \<open>get_token\<close> returns \<open>t1\<close> and the cache
  holds \<open>t1\<close> until 1120.
\<close>

theorem get_token_cache_policy_witness:
  "(1000 :: real) < (1000 + 60) - 30
   \<and> fst (get_token (stub_world [] [reply 200 None token_body] 1000)
         (fresh\<lparr>cache := Some \<lparr>access_token = JStr ''t0'', expires_at = 1000 + 60\<rparr>\<rparr>))
       = Inr (JStr ''t0'')
   \<and> token_calls (snd (get_token (stub_world [] [reply 200 None token_body] 1000)
         (fresh\<lparr>cache := Some \<lparr>access_token = JStr ''t0'', expires_at = 1000 + 60\<rparr>\<rparr>))) = 0
   \<and> (1000 + 20) - (1000 :: real) \<le> 30
   \<and> get_token (stub_world [] [reply 200 None token_body] 1000)
         (fresh\<lparr>cache := Some \<lparr>access_token = JStr ''t0'', expires_at = 1000 + 20\<rparr>\<rparr>)
       = (Inr (JStr ''t1''),
          \<lparr>cache = Some \<lparr>access_token = JStr ''t1'', expires_at = 1120\<rparr>,
             api_calls = 0, token_calls = 1, time_reads = 2, sleeps = []\<rparr>)
   \<and> get_token (stub_world [] [reply 200 None token_body] 1000) fresh
       = (Inr (JStr ''t1''),
          \<lparr>cache = Some \<lparr>access_token = JStr ''t1'', expires_at = 1120\<rparr>,
             api_calls = 0, token_calls = 1, time_reads = 1, sleeps = []\<rparr>)
   \<and> fst (get_token (stub_world [] [] 1000) fresh) = Inl (TransportError ''connection refused'')
   \<and> cache (snd (get_token (stub_world [] [] 1000) fresh)) = None"
  using get_token_cache_policy
          [where st = "fresh\<lparr>cache := Some \<lparr>access_token = JStr ''t0'', expires_at = 1000 + 60\<rparr>\<rparr>"
             and c = "\<lparr>access_token = JStr ''t0'', expires_at = 1000 + 60\<rparr>"
             and W = "stub_world [] [reply 200 None token_body] 1000"
             and resp = "\<lparr>status_code = 200, retry_after_header = None, content = token_body\<rparr>"
             and kvs = "[(''access_token'', JStr ''t1''), (''expires_in'', JNum 120)]"
             and tok = "JStr ''t1''" and x = 120 and msg = "[]"]
        get_token_cache_policy
          [where st = "fresh\<lparr>cache := Some \<lparr>access_token = JStr ''t0'', expires_at = 1000 + 20\<rparr>\<rparr>"
             and c = "\<lparr>access_token = JStr ''t0'', expires_at = 1000 + 20\<rparr>"
             and W = "stub_world [] [reply 200 None token_body] 1000"
             and resp = "\<lparr>status_code = 200, retry_after_header = None, content = token_body\<rparr>"
             and kvs = "[(''access_token'', JStr ''t1''), (''expires_in'', JNum 120)]"
             and tok = "JStr ''t1''" and x = 120 and msg = "[]"]
        get_token_cache_policy
          [where st = fresh
             and c = "\<lparr>access_token = JStr ''t0'', expires_at = 1000 + 20\<rparr>"
             and W = "stub_world [] [reply 200 None token_body] 1000"
             and resp = "\<lparr>status_code = 200, retry_after_header = None, content = token_body\<rparr>"
             and kvs = "[(''access_token'', JStr ''t1''), (''expires_in'', JNum 120)]"
             and tok = "JStr ''t1''" and x = 120 and msg = "[]"]
        get_token_cache_policy
          [where st = fresh
             and c = "\<lparr>access_token = JStr ''t0'', expires_at = 1000 + 20\<rparr>"
             and W = "stub_world [] [] 1000"
             and resp = "\<lparr>status_code = 200, retry_after_header = None, content = token_body\<rparr>"
             and kvs = "[]" and tok = JNull and x = 0 and msg = "''connection refused''"]
  by (simp add: fresh_def stub_world_def script_def reply_def is_success_def stub_json_values
        dict_get_def get_token_def refresh_def Let_def)

text \<open>
  Claim C5 as stated fails. When the token endpoint answers 401, \<open>get_token\<close> lets the
  \<open>httpx.HTTPStatusError\<close> of \<open>raise_for_status\<close> through; it is not an
  \<open>AuthenticationError\<close>.
\<close>

theorem token_rejection_counterexample:
  "fst (get_token (stub_world [] [reply 401 None ''{}''] 0) fresh) = Inl (HTTPStatusError 401)
   \<and> \<not> is_AuthenticationError (HTTPStatusError 401)"
  by (simp add: get_token_def refresh_def stub_world_def script_def fresh_def reply_def
        is_success_def)

text \<open>
  Claim C5, amended. Whenever \<open>get_token\<close> has to refresh and the token endpoint
  answers with a status outside 200..299, \<open>get_token\<close> fails at once with the
  \<open>httpx.HTTPStatusError\<close> of that status, after exactly one POST to the token endpoint
  and with the cache as it was.
\<close>

theorem token_rejection_propagates:
  "(cache st = None \<or> (cache st = Some c \<and> expires_at c - time_time W (time_reads st) \<le> 30))
   \<and> token_net W (token_calls st) = Responds resp \<and> \<not> is_success resp \<longrightarrow>
     fst (get_token W st) = Inl (HTTPStatusError (status_code resp))
     \<and> token_calls (snd (get_token W st)) = Suc (token_calls st)
     \<and> cache (snd (get_token W st)) = cache st"
  by (auto simp add: get_token_def refresh_def Let_def)

theorem token_rejection_propagates_witness:
  "token_net (stub_world [] [reply 401 None ''{}''] 0) (token_calls fresh)
     = reply 401 None ''{}''
   \<and> \<not> is_success \<lparr>status_code = 401, retry_after_header = None, content = ''{}''\<rparr>
   \<and> fst (get_token (stub_world [] [reply 401 None ''{}''] 0) fresh) = Inl (HTTPStatusError 401)
   \<and> token_calls (snd (get_token (stub_world [] [reply 401 None ''{}''] 0) fresh)) = 1
   \<and> cache (snd (get_token (stub_world [] [reply 401 None ''{}''] 0) fresh)) = None"
  using token_rejection_propagates
    [of fresh "\<lparr>access_token = JNull, expires_at = 0\<rparr>" "stub_world [] [reply 401 None ''{}''] 0"
        "\<lparr>status_code = 401, retry_after_header = None, content = ''{}''\<rparr>"]
  by (simp add: stub_world_def script_def fresh_def reply_def is_success_def)

section \<open>The retry loop\<close>




text \<open>
  Claim C2 fails on the code. A 403 response whose body is HTML makes \<open>resp.json()\<close>
  raise, and a 403 whose body is a JSON list makes \<open>data.get\<close> raise: the call ends
  on that attempt without a sleep, but with the decoding error or an
  \<open>AttributeError\<close>, not with an \<open>AuthenticationError\<close>.
\<close>

theorem forbidden_body_not_object_raises:
  "request (stub_world [reply 403 None html_body] [] 0) key_client fresh
     = (Inl JSONDecodeError, fresh\<lparr>api_calls := 1\<rparr>)
   \<and> request (stub_world [reply 403 None ''[]''] [] 0) key_client fresh
     = (Inl AttributeError, fresh\<lparr>api_calls := 1\<rparr>)"
  unfolding request_def attempt_range
  by (simp add: send_static static_auth_def key_client_def stub_world_def script_def
        fresh_def reply_def handle_response_def json_or_def stub_json_values bodies_not_empty)

text \<open>
  What does hold of a 401 or 403 response: the call ends on the attempt that received
  it, whatever attempts remain, in the state the request left (no sleep, no further
  request); and when the body is empty or a JSON object the error is an
  \<open>AuthenticationError\<close> with the body's \<open>message\<close> (or the default message) and the
  body as \<open>raw\<close>.
\<close>

lemma auth_failure_no_retry:
  "send W cl st = (Inr resp, st1) \<and> (status_code resp = 401 \<or> status_code resp = 403) \<longrightarrow>
     (\<exists>e. attempts W cl (attempt # rest) le st = (Raise e, st1))
     \<and> sleeps st1 = sleeps st \<and> api_calls st1 = Suc (api_calls st)
     \<and> (\<forall>kvs. json_or W resp (JObj []) = Inr (JObj kvs) \<longrightarrow>
           attempts W cl (attempt # rest) le st =
             (Raise (new_AuthenticationError
                       (dict_get kvs ''message'' (JStr ''Authentication failed'')) (JObj kvs)),
              st1))"
proof (intro impI, elim conjE)
  assume s: "send W cl st = (Inr resp, st1)"
    and c: "status_code resp = 401 \<or> status_code resp = 403"
  from handle_auth_raises[OF c, of W attempt le st1]
  obtain e where "handle_response W attempt le resp st1 = (Raise e, st1)" by blast
  with s have 1: "\<exists>e. attempts W cl (attempt # rest) le st = (Raise e, st1)" by simp
  have 2: "\<forall>kvs. json_or W resp (JObj []) = Inr (JObj kvs) \<longrightarrow>
           attempts W cl (attempt # rest) le st =
             (Raise (new_AuthenticationError
                       (dict_get kvs ''message'' (JStr ''Authentication failed'')) (JObj kvs)),
              st1)"
    using s handle_auth_error[OF c, of W _ attempt le st1] by simp
  from 1 2 send_response[OF s] show "(\<exists>e. attempts W cl (attempt # rest) le st = (Raise e, st1))
     \<and> sleeps st1 = sleeps st \<and> api_calls st1 = Suc (api_calls st)
     \<and> (\<forall>kvs. json_or W resp (JObj []) = Inr (JObj kvs) \<longrightarrow>
           attempts W cl (attempt # rest) le st =
             (Raise (new_AuthenticationError
                       (dict_get kvs ''message'' (JStr ''Authentication failed'')) (JObj kvs)),
              st1))" by blast
qed

text \<open>
  Claim C4 fails on the code. After three transport failures the last failure is raised,
  but the loop has slept three times, 1, 2 and 4 seconds: the handler of
  \<open>httpx.TransportError\<close> sleeps on the last attempt too, before the error is raised.
\<close>

theorem transport_failures_sleep_after_last_attempt:
  "request (stub_world [Fails ''timeout 1'', Fails ''timeout 2'', Fails ''timeout 3''] [] 0)
     key_client fresh
   = (Inl (TransportError ''timeout 3''), fresh\<lparr>api_calls := 3, sleeps := [1, 2, 4]\<rparr>)"
  unfolding request_def attempt_range
  by (simp add: send_static static_auth_def key_client_def stub_world_def script_def
        short_sleeps fresh_def)

text \<open>
  Claim C6 fails on the code. A 429 response whose \<open>Retry-After\<close> header is an HTTP date
  makes \<open>float\<close> raise \<open>ValueError\<close>: the call fails on the first attempt, without a
  sleep and without the fallback delay.
\<close>

theorem retry_after_date_raises:
  "request (stub_world [reply 429 (Some http_date) [], reply 200 None ''{}''] [] 0)
     key_client fresh
   = (Inl ValueError, fresh\<lparr>api_calls := 1\<rparr>)"
  unfolding request_def attempt_range
  by (simp add: send_static static_auth_def key_client_def stub_world_def script_def
        fresh_def reply_def handle_response_def retry_after_of_def stub_float_values)

text \<open>
  Claim C7 fails on the code. A 401 response whose body is HTML makes \<open>resp.json()\<close>
  raise: the call fails with the JSON decoding error, not with an
  \<open>AuthenticationError\<close> and a default message.
\<close>

theorem html_error_body_raises:
  "request (stub_world [reply 401 None html_body] [] 0) key_client fresh
   = (Inl JSONDecodeError, fresh\<lparr>api_calls := 1\<rparr>)"
  unfolding request_def attempt_range
  by (simp add: send_static static_auth_def key_client_def stub_world_def script_def
        fresh_def reply_def handle_response_def json_or_def stub_json_values bodies_not_empty)

text \<open>
  Claim C9. The statement after the loop is reached only when the last attempt ended in
  a transport failure; \<open>last_err\<close> is then that failure and it is the error raised.
  So \<open>last_err\<close> is never \<open>None\<close> there, and no call ends with the generic
  \<open>ApiError(0, "Request failed after retries")\<close>.
\<close>

theorem fallback_unreachable:
  "(\<forall>le st'. attempts W cl [0..<MAX_RETRIES] None st = (Continue le, st') \<longrightarrow>
      (\<exists>x. le = Some (TransportError x) \<and> request W cl st = (Inl (TransportError x), st')))
   \<and> fst (attempts W cl [0..<MAX_RETRIES] None st) \<noteq> Continue None
   \<and> fst (request W cl st) \<noteq> Inl fallback_error"
proof -
  have ft: "\<exists>x. le = Some (TransportError x)"
    if "attempts W cl [0..<MAX_RETRIES] None st = (Continue le, st')" for le st'
    using attempts_fallthrough[OF that] by (simp add: attempt_range MAX_RETRIES_def)
  have 1: "\<forall>le st'. attempts W cl [0..<MAX_RETRIES] None st = (Continue le, st') \<longrightarrow>
      (\<exists>x. le = Some (TransportError x) \<and> request W cl st = (Inl (TransportError x), st'))"
    using ft by (fastforce simp add: request_def)
  have 2: "fst (attempts W cl [0..<MAX_RETRIES] None st) \<noteq> Continue None"
    using ft by (cases "attempts W cl [0..<MAX_RETRIES] None st") auto
  have 3: "fst (request W cl st) \<noteq> Inl fallback_error"
  proof (cases "attempts W cl [0..<MAX_RETRIES] None st")
    case (Pair fl st')
    show ?thesis
    proof (cases fl)
      case (Return j)
      with Pair show ?thesis by (simp add: request_def)
    next
      case (Raise e)
      with Pair attempts_raise_not_fallback[of W cl "[0..<MAX_RETRIES]" None st e st']
      show ?thesis by (simp add: request_def)
    next
      case (Continue le)
      with Pair ft[of le st'] show ?thesis
        by (auto simp add: request_def fallback_error_def new_ApiError_def)
    qed
  qed
  from 1 2 3 show ?thesis by blast
qed

theorem fallback_unreachable_witness:
  "attempts (stub_world [Fails ''reset'', Fails ''reset'', Fails ''timeout''] [] 0) key_client
       [0..<MAX_RETRIES] None fresh
     = (Continue (Some (TransportError ''timeout'')), fresh\<lparr>api_calls := 3, sleeps := [1, 2, 4]\<rparr>)
   \<and> request (stub_world [Fails ''reset'', Fails ''reset'', Fails ''timeout''] [] 0) key_client fresh
     = (Inl (TransportError ''timeout''), fresh\<lparr>api_calls := 3, sleeps := [1, 2, 4]\<rparr>)"
  using fallback_unreachable
          [of "stub_world [Fails ''reset'', Fails ''reset'', Fails ''timeout''] [] 0"
              key_client fresh]
  unfolding attempt_range
  by (simp add: send_static static_auth_def key_client_def stub_world_def script_def
        short_sleeps fresh_def)

text \<open>
  Claim C10. An \<open>AuthenticationError\<close> raised for a 403 response has \<open>status_code\<close> 401,
  and a call gives the same result, error included, whether a response carries the
  status 403 or the status 401: the status of the response is not in the error.
\<close>

theorem forbidden_reported_as_401:
  "(send W cl st = (Inr resp, st1) \<and> status_code resp = 403
      \<and> attempts W cl (attempt # rest) le st = (Raise (AuthenticationError e), st') \<longrightarrow>
      err_status_code e = 401)
   \<and> (api_net W k = Responds r \<and> status_code r = 403 \<longrightarrow>
      request (relabel W k 401) cl st = request W cl st)"
proof (intro conjI impI)
  assume a: "send W cl st = (Inr resp, st1) \<and> status_code resp = 403
      \<and> attempts W cl (attempt # rest) le st = (Raise (AuthenticationError e), st')"
  then have c: "status_code resp = 401 \<or> status_code resp = 403"
    and s: "send W cl st = (Inr resp, st1)"
    and r: "attempts W cl (attempt # rest) le st = (Raise (AuthenticationError e), st')"
    by blast+
  from handle_auth_raises[OF c, of W attempt le st1]
  obtain x where x: "handle_response W attempt le resp st1 = (Raise x, st1)" by blast
  with s r have "x = AuthenticationError e" by simp
  with x show "err_status_code e = 401" by (auto dest: handle_auth_status)
next
  assume "api_net W k = Responds r \<and> status_code r = 403"
  then show "request (relabel W k 401) cl st = request W cl st"
    by (simp add: request_def attempts_relabel)
qed

theorem forbidden_reported_as_401_witness:
  "send (stub_world [reply 403 None denied_body] [] 0) key_client fresh
     = (Inr \<lparr>status_code = 403, retry_after_header = None, content = denied_body\<rparr>,
        fresh\<lparr>api_calls := 1\<rparr>)
   \<and> attempts (stub_world [reply 403 None denied_body] [] 0) key_client (0 # [1, 2]) None fresh
     = (Raise (AuthenticationError
                 \<lparr>err_status_code = 401, err_message = JStr ''denied'',
                    err_raw = JObj [(''message'', JStr ''denied'')]\<rparr>),
        fresh\<lparr>api_calls := 1\<rparr>)
   \<and> err_status_code \<lparr>err_status_code = 401, err_message = JStr ''denied'',
                         err_raw = JObj [(''message'', JStr ''denied'')]\<rparr> = 401
   \<and> request (relabel (stub_world [reply 403 None denied_body] [] 0) 0 401) key_client fresh
     = request (stub_world [reply 403 None denied_body] [] 0) key_client fresh"
  using forbidden_reported_as_401 [where W = "stub_world [reply 403 None denied_body] [] 0"
            and cl = key_client and st = fresh and ?st1.0 = "fresh\<lparr>api_calls := 1\<rparr>"
            and st' = "fresh\<lparr>api_calls := 1\<rparr>"
            and resp = "\<lparr>status_code = 403, retry_after_header = None, content = denied_body\<rparr>"
            and attempt = 0 and rest = "[1, 2]" and le = None
            and e = "\<lparr>err_status_code = 401, err_message = JStr ''denied'',
                       err_raw = JObj [(''message'', JStr ''denied'')]\<rparr>",
          THEN conjunct1]
        forbidden_reported_as_401 [where W = "stub_world [reply 403 None denied_body] [] 0" and k = 0
            and r = "\<lparr>status_code = 403, retry_after_header = None, content = denied_body\<rparr>"
            and cl = key_client and st = fresh,
          THEN conjunct2]
  by (simp add: send_static static_auth_def key_client_def stub_world_def script_def reply_def
        fresh_def stub_json_values bodies_not_empty json_or_def dict_get_def handle_response_def
        new_AuthenticationError_def ApiError_init_def py_or_def)

section \<open>Serialization\<close>

text \<open>
  Claim C8. For each of the six request objects and each of its fields: when the value
  is the empty string or the number zero, the serialized object has no entry under the
  field's camelCase name; otherwise it has the field's value there, unchanged. The
  serialized object has no other keys. The same holds of \<open>_serialize\<close> on the fields of
  any dataclass whose field names stay distinct in camelCase, whatever the values are
  (a field holding \<open>False\<close> is omitted too, since \<open>False == 0\<close> in Python).
\<close>

theorem serialize_omits_defaults:
  "(\<forall>(k, v) \<in> set (asdict obj).
      (v = JStr [] \<or> v = JNum 0 \<longrightarrow> serialize obj (to_camel k) = None)
      \<and> (v \<noteq> JStr [] \<and> v \<noteq> JNum 0 \<longrightarrow> serialize obj (to_camel k) = Some v))
   \<and> dom (serialize obj) \<subseteq> to_camel ` fst ` set (asdict obj)
   \<and> (inj_on to_camel (fst ` set raw) \<and> distinct (map fst raw) \<and> (f, x) \<in> set raw \<longrightarrow>
        (x = JStr [] \<or> x = JNum 0 \<longrightarrow> serialize_items raw (to_camel f) = None)
        \<and> (x \<noteq> JStr [] \<and> \<not> eq_zero x \<longrightarrow> serialize_items raw (to_camel f) = Some x))"
proof (intro conjI)
  show "\<forall>(k, v) \<in> set (asdict obj).
      (v = JStr [] \<or> v = JNum 0 \<longrightarrow> serialize obj (to_camel k) = None)
      \<and> (v \<noteq> JStr [] \<and> v \<noteq> JNum 0 \<longrightarrow> serialize obj (to_camel k) = Some v)"
    by (cases obj) (simp_all add: serialize_def serialize_items_def dict_of_def camel_names)
  show "dom (serialize obj) \<subseteq> to_camel ` fst ` set (asdict obj)"
    by (cases obj)
      (auto simp add: serialize_def serialize_items_def dict_of_def camel_names split: if_splits)
  show "inj_on to_camel (fst ` set raw) \<and> distinct (map fst raw) \<and> (f, x) \<in> set raw \<longrightarrow>
        (x = JStr [] \<or> x = JNum 0 \<longrightarrow> serialize_items raw (to_camel f) = None)
        \<and> (x \<noteq> JStr [] \<and> \<not> eq_zero x \<longrightarrow> serialize_items raw (to_camel f) = Some x)"
  proof (intro impI conjI)
    assume a: "inj_on to_camel (fst ` set raw) \<and> distinct (map fst raw) \<and> (f, x) \<in> set raw"
    {
      assume "x = JStr [] \<or> x = JNum 0"
      then have "x = JStr [] \<or> eq_zero x" by auto
      with a show "serialize_items raw (to_camel f) = None"
        by (intro serialize_items_omitted) simp_all
    }
    {
      assume "x \<noteq> JStr [] \<and> \<not> eq_zero x"
      with a show "serialize_items raw (to_camel f) = Some x"
        by (intro serialize_items_kept) simp_all
    }
  qed
qed

text \<open>
  An address with an empty \<open>address_line2\<close>: the body has \<open>addressLine1\<close> and no
  \<open>addressLine2\<close>. A field that holds the number zero is left out as well.
\<close>

theorem serialize_omits_defaults_witness:
  "(''address_line2'', JStr []) \<in> set (asdict (AddressRequest ''123 Main St'' ''New York'' ''US'' [] ''NY'' ''10001''))
   \<and> serialize (AddressRequest ''123 Main St'' ''New York'' ''US'' [] ''NY'' ''10001'')
        ''addressLine2'' = None
   \<and> serialize (AddressRequest ''123 Main St'' ''New York'' ''US'' [] ''NY'' ''10001'')
        ''addressLine1'' = Some (JStr ''123 Main St'')
   \<and> inj_on to_camel (fst ` set [(''tax_id'', JStr ''X1''), (''amount_due'', JNum 0)])
   \<and> serialize_items [(''tax_id'', JStr ''X1''), (''amount_due'', JNum 0)] ''amountDue'' = None
   \<and> serialize_items [(''tax_id'', JStr ''X1''), (''amount_due'', JNum 0)] ''taxId''
        = Some (JStr ''X1'')"
  using serialize_omits_defaults
          [of "AddressRequest ''123 Main St'' ''New York'' ''US'' [] ''NY'' ''10001''"
              "[(''tax_id'', JStr ''X1''), (''amount_due'', JNum 0)]" "''amount_due''" "JNum 0"]
        serialize_omits_defaults
          [of "AddressRequest ''123 Main St'' ''New York'' ''US'' [] ''NY'' ''10001''"
              "[(''tax_id'', JStr ''X1''), (''amount_due'', JNum 0)]" "''tax_id''" "JStr ''X1''"]
  by (simp add: camel_names)

end
